theory Spec2Isabelle
  imports
    Main
    "HOL-Library.Multiset"
    "HOL-Library.Sublist"
    "HOL-Library.Char_ord"
    "HOL-Library.List_Lexorder"
begin

section \<open>GameMoments: the session and data-integrity engine of app.js\<close>

text \<open>
  A shallow embedding of \<^verbatim>\<open>src/app.js\<close>. The module-level variables of the script and
  the parts of the page that the functions read or write are the fields of one record,
  \<open>session\<close>; every function of the script is a function from session to session.

  Conventions of the embedding:
  \<^item> JavaScript numbers that hold counts, halves and seconds are \<open>int\<close>. The script's
    numbers are doubles: an integer below \<open>2 ^ 53\<close> in absolute value is held exactly, and
    a sum or a parsed digit run in that range is the exact integer; beyond it the script
    rounds and the embedding does not. A statement about the value of a parsed or added
    number therefore carries the bound \<open>exact_range\<close>. Element text that holds a count is
    \<open>nat\<close>.
  \<^item> JavaScript strings are \<open>string\<close>; a character stands for one code unit.
  \<^item> \<^verbatim>\<open>null\<close>, \<^verbatim>\<open>undefined\<close> and \<^verbatim>\<open>NaN\<close> are \<open>None\<close>.
  \<^item> The IndexedDB object stores are lists of records kept in ascending key order, which is
    the order in which \<^verbatim>\<open>getAll\<close> hands the records back. Every request is taken to
    succeed, so each \<^verbatim>\<open>await\<close> is the sequential composition of its two sides.
  \<^item> Values the script takes from its environment (the wall clock, the random suffix of an
    event id, the \<^verbatim>\<open>Date\<close> parser and printer) are arguments of the functions that use them.
  \<^item> Haptics, the wake lock, button flashes and the timeout that hides the toast take no part
    in any value modelled here and are left out.
\<close>

subsection \<open>Records of the data model\<close>

text \<open>
  The persisted shapes. The event's foreign key is \<^verbatim>\<open>game_id\<close> in the script; a record
  field name is a constant of the theory, so the event's field is \<open>ev_game_id\<close>.
\<close>

record game =
  game_id :: string
  date :: string
  opponent :: string
  logger_name :: string

record event =
  event_id :: string
  ev_game_id :: string
  half :: int
  t_half_seconds :: int
  event_code :: string
  created_at :: string

text \<open>
  The state: the variables declared under \<^verbatim>\<open>STATE\<close> (lines 57 to 64), the two object
  stores, and the page elements the script reads or writes. \<open>clockInterval\<close> is whether the
  interval handle is set. \<open>review_score\<close> is the pair of numbers inside the
  \<^verbatim>\<open>ri-score\<close> span of \<^verbatim>\<open>review-game-info\<close>, \<open>None\<close> before the first rendering.
  \<open>events_list\<close> and \<open>recent_events\<close> are the events the two list elements show, in the
  order shown; \<open>games_list\<close> is the saved-games listing with the event count of each row.
\<close>

record session =
  currentGame :: "game option"
  currentEvents :: "event list"
  currentHalf :: int
  clockSeconds :: int
  clockInterval :: bool
  gameActive :: bool
  db_games :: "game list"
  db_events :: "event list"
  screen :: string
  toast :: string
  score_pfc :: nat
  score_opp :: nat
  recent_events :: "event list"
  review_score :: "(nat \<times> nat) option"
  events_list :: "event list"
  games_list :: "(game \<times> nat) list"
  filter_half :: string
  filter_team :: string
  filter_type :: string
  adjust_h1 :: string
  adjust_h2 :: string
  half_indicator :: string
  header_opponent :: string
  btn_half2_hidden :: bool
  btn_end_game_hidden :: bool
  btn_resume_logging_hidden :: bool

subsection \<open>Event types\<close>

text \<open>
  The table \<^verbatim>\<open>EVENT_TYPES\<close> (code, label, goal flag), and the codes \<^verbatim>\<open>buildEventGrid\<close>
  wires to the buttons of the grid: each code of the table with \<^verbatim>\<open>_PFC\<close> and with
  \<^verbatim>\<open>_OPP\<close>. These are the keys of \<^verbatim>\<open>EVENT_DISPLAY\<close>.
\<close>

definition EVENT_TYPES :: "(string \<times> string \<times> bool) list" where
  "EVENT_TYPES =
     [(''GK'', ''GOAL KICK'', False), (''CK'', ''CORNER'', False), (''FK'', ''FREE KICK'', False),
      (''KO'', ''KICKOFF'', False), (''SO'', ''SIDEOUT'', False), (''GOAL'', ''GOAL'', True)]"

definition button_codes :: "string list" where
  "button_codes = concat (map (\<lambda>(code, label, isGoal). [code @ ''_PFC'', code @ ''_OPP'']) EVENT_TYPES)"

subsection \<open>IndexedDB\<close>

text \<open>
  An object store with a key path: \<^verbatim>\<open>put\<close> inserts or replaces the record with the
  same key, \<^verbatim>\<open>delete\<close> removes it, \<^verbatim>\<open>getAll\<close> returns the records in key order.
\<close>

fun idb_put :: "('a \<Rightarrow> string) \<Rightarrow> 'a \<Rightarrow> 'a list \<Rightarrow> 'a list" where
  "idb_put key r [] = [r]"
| "idb_put key r (x # xs) =
     (if key r = key x then r # xs
      else if key r < key x then r # x # xs
      else x # idb_put key r xs)"

definition idb_delete :: "('a \<Rightarrow> string) \<Rightarrow> string \<Rightarrow> 'a list \<Rightarrow> 'a list" where
  "idb_delete key k xs = filter (\<lambda>x. key x \<noteq> k) xs"

definition idb_get :: "('a \<Rightarrow> string) \<Rightarrow> string \<Rightarrow> 'a list \<Rightarrow> 'a option" where
  "idb_get key k xs = find (\<lambda>x. key x = k) xs"

text \<open>\<^verbatim>\<open>dbPut(STORE_GAMES, g)\<close>, \<^verbatim>\<open>dbPut(STORE_EVENTS, e)\<close> and \<^verbatim>\<open>dbDelete(STORE_EVENTS, k)\<close>.\<close>

definition dbPut_games :: "game \<Rightarrow> session \<Rightarrow> session" where
  "dbPut_games g s = s\<lparr>db_games := idb_put game_id g (db_games s)\<rparr>"

definition dbPut_events :: "event \<Rightarrow> session \<Rightarrow> session" where
  "dbPut_events e s = s\<lparr>db_events := idb_put event_id e (db_events s)\<rparr>"

definition dbDelete_events :: "string \<Rightarrow> session \<Rightarrow> session" where
  "dbDelete_events k s = s\<lparr>db_events := idb_delete event_id k (db_events s)\<rparr>"

text \<open>\<^verbatim>\<open>dbGetAll(STORE_GAMES)\<close> and the lookup through the index \<^verbatim>\<open>by_game\<close>.\<close>

definition dbGetAll_games :: "session \<Rightarrow> game list" where
  "dbGetAll_games s = db_games s"

definition dbGetEventsByGame :: "string \<Rightarrow> session \<Rightarrow> event list" where
  "dbGetEventsByGame gameId s = filter (\<lambda>e. ev_game_id e = gameId) (db_events s)"

subsection \<open>Screen management and toast\<close>

definition showScreen :: "string \<Rightarrow> session \<Rightarrow> session" where
  "showScreen name s = s\<lparr>screen := name\<rparr>"

definition showToast :: "string \<Rightarrow> session \<Rightarrow> session" where
  "showToast message s = s\<lparr>toast := message\<rparr>"

subsection \<open>Clock\<close>

definition stopClock :: "session \<Rightarrow> session" where
  "stopClock s = (if clockInterval s then s\<lparr>clockInterval := False\<rparr> else s)"

definition startClock :: "session \<Rightarrow> session" where
  "startClock s = (stopClock s)\<lparr>clockInterval := True\<rparr>"

text \<open>
  The callback handed to \<^verbatim>\<open>setInterval\<close> in \<^verbatim>\<open>startClock\<close>: one second passing.
  It runs only while the interval is set.
\<close>

definition tick :: "session \<Rightarrow> session" where
  "tick s = (if clockInterval s then s\<lparr>clockSeconds := clockSeconds s + 1\<rparr> else s)"

subsection \<open>Scoreboard\<close>

text \<open>The body of the \<^verbatim>\<open>for\<close> loop of \<^verbatim>\<open>updateScoreboard\<close>, and the loop.\<close>

definition score_step :: "nat \<times> nat \<Rightarrow> event \<Rightarrow> nat \<times> nat" where
  "score_step acc e =
     (if event_code e = ''GOAL_PFC'' then (fst acc + 1, snd acc)
      else if event_code e = ''GOAL_OPP'' then (fst acc, snd acc + 1)
      else acc)"

definition updateScoreboard :: "session \<Rightarrow> session" where
  "updateScoreboard s =
     (let acc = foldl score_step (0, 0) (currentEvents s)
      in s\<lparr>score_pfc := fst acc, score_opp := snd acc\<rparr>)"

subsection \<open>Recent events\<close>

text \<open>\<^verbatim>\<open>currentEvents.slice(-3).reverse()\<close>: the last three events, newest first.\<close>

definition updateRecentEvents :: "session \<Rightarrow> session" where
  "updateRecentEvents s =
     s\<lparr>recent_events := rev (drop (length (currentEvents s) - 3) (currentEvents s))\<rparr>"

subsection \<open>Event logging and undo\<close>

text \<open>
  \<open>new_id\<close> is the string \<^verbatim>\<open>ev_<Date.now()>_<random suffix>\<close> and \<open>now_iso\<close> is
  \<^verbatim>\<open>new Date().toISOString()\<close>, both drawn from the environment at the call.
\<close>

definition logEvent :: "string \<Rightarrow> string \<Rightarrow> string \<Rightarrow> session \<Rightarrow> session" where
  "logEvent eventCode new_id now_iso s =
     (case currentGame s of
        None \<Rightarrow> s
      | Some g \<Rightarrow>
          if \<not> gameActive s then s
          else
            let ev = \<lparr>event_id = new_id, ev_game_id = game_id g, half = currentHalf s,
                      t_half_seconds = clockSeconds s, event_code = eventCode,
                      created_at = now_iso\<rparr>;
                s1 = s\<lparr>currentEvents := currentEvents s @ [ev]\<rparr>;
                s2 = dbPut_events ev s1;
                s3 = updateScoreboard (updateRecentEvents s2);
                s4 = (if currentHalf s3 = 1 then s3\<lparr>btn_half2_hidden := False\<rparr> else s3)
            in (if currentHalf s4 = 2 then s4\<lparr>btn_end_game_hidden := False\<rparr> else s4))"

definition undoLastEvent :: "session \<Rightarrow> session" where
  "undoLastEvent s =
     (if currentEvents s = [] then showToast ''Nothing to undo'' s
      else
        let lst = last (currentEvents s);
            s1 = s\<lparr>currentEvents := butlast (currentEvents s)\<rparr>;
            s2 = dbDelete_events (event_id lst) s1
        in showToast ''Event removed'' (updateScoreboard (updateRecentEvents s2)))"

subsection \<open>Built-ins of the language the script calls\<close>

text \<open>
  \<^verbatim>\<open>String.prototype.startsWith\<close>, \<^verbatim>\<open>endsWith\<close> and \<^verbatim>\<open>trim\<close>, written out on lists of
  characters.
\<close>

definition startsWith :: "string \<Rightarrow> string \<Rightarrow> bool" where
  "startsWith str p = (take (length p) str = p)"

definition endsWith :: "string \<Rightarrow> string \<Rightarrow> bool" where
  "endsWith str p = (length p \<le> length str \<and> drop (length str - length p) str = p)"

text \<open>
  White space as \<^verbatim>\<open>trim\<close> and \<^verbatim>\<open>parseInt\<close> skip it: tab, line feed, vertical tab, form
  feed, carriage return, space and the no-break space. (The white space characters beyond
  one byte have no counterpart in \<open>char\<close>.)
\<close>

definition isStrWhiteSpaceChar :: "char \<Rightarrow> bool" where
  "isStrWhiteSpaceChar c =
     (c = CHR 0x09 \<or> c = CHR 0x0A \<or> c = CHR 0x0B \<or> c = CHR 0x0C \<or> c = CHR 0x0D
      \<or> c = CHR 0x20 \<or> c = CHR 0xA0)"

definition trim :: "string \<Rightarrow> string" where
  "trim str = rev (dropWhile isStrWhiteSpaceChar (rev (dropWhile isStrWhiteSpaceChar str)))"

text \<open>
  The integers every double arithmetic step of the script treats exactly: those between
  \<^verbatim>\<open>Number.MIN_SAFE_INTEGER\<close> and \<^verbatim>\<open>Number.MAX_SAFE_INTEGER\<close>.
\<close>

abbreviation exact_range :: "int \<Rightarrow> bool" where
  "exact_range n \<equiv> \<bar>n\<bar> < 2 ^ 53"

definition isDigit :: "char \<Rightarrow> bool" where
  "isDigit c = (CHR ''0'' \<le> c \<and> c \<le> CHR ''9'')"

definition digitValue :: "char \<Rightarrow> int" where
  "digitValue c = of_char c - 48"

text \<open>
  \<^verbatim>\<open>parseInt(str, 10)\<close>: skip leading white space, read an optional sign, then the longest
  run of decimal digits; \<^verbatim>\<open>NaN\<close> (\<open>None\<close>) when that run is empty. What follows the digits
  is ignored. The result here is the integer the digits denote. The script's result is the
  double nearest to it: the same integer when that is in the exact range, \<open>0\<close> exactly
  when it is \<open>0\<close>, and \<^verbatim>\<open>NaN\<close> in the same cases.
\<close>

definition parseInt :: "string \<Rightarrow> int option" where
  "parseInt str =
     (let S = dropWhile isStrWhiteSpaceChar str;
          sign = (if S \<noteq> [] \<and> hd S = CHR ''-'' then - 1 else 1);
          S' = (if S \<noteq> [] \<and> (hd S = CHR ''+'' \<or> hd S = CHR ''-'') then tl S else S);
          Z = takeWhile isDigit S'
      in if Z = [] then None
         else Some (sign * foldl (\<lambda>n c. 10 * n + digitValue c) 0 Z))"

text \<open>
  \<^verbatim>\<open>Array.prototype.sort(comparefn)\<close>. The language fixes the outcome when the comparator
  is a consistent ordering: the elements in ascending order of the comparator, elements that
  compare equal in their original order. That outcome is what a stable insertion sort
  computes. \<open>SortCompare\<close> is the language's wrapper of the comparator: a \<^verbatim>\<open>NaN\<close> result
  counts as \<open>0\<close>.
\<close>

definition SortCompare :: "('a \<Rightarrow> 'a \<Rightarrow> int option) \<Rightarrow> 'a \<Rightarrow> 'a \<Rightarrow> int" where
  "SortCompare comparefn x y = (case comparefn x y of None \<Rightarrow> 0 | Some v \<Rightarrow> v)"

fun sort_insert :: "('a \<Rightarrow> 'a \<Rightarrow> int option) \<Rightarrow> 'a \<Rightarrow> 'a list \<Rightarrow> 'a list" where
  "sort_insert comparefn x [] = [x]"
| "sort_insert comparefn x (y # ys) =
     (if SortCompare comparefn x y \<le> 0 then x # y # ys
      else y # sort_insert comparefn x ys)"

definition array_sort :: "('a \<Rightarrow> 'a \<Rightarrow> int option) \<Rightarrow> 'a list \<Rightarrow> 'a list" where
  "array_sort comparefn xs = foldr (sort_insert comparefn) xs []"

datatype js_error = TypeError | RangeError

subsection \<open>Setup: start game\<close>

text \<open>
  \<open>input_opponent\<close> and \<open>input_logger\<close> are the values of the two text inputs;
  \<open>new_id\<close> is the string \<^verbatim>\<open>game_<Date.now()>\<close> and \<open>now_iso\<close> is
  \<^verbatim>\<open>new Date().toISOString()\<close>. The scoreboard's opponent label and the clock text are
  renderings and are not part of the state.
\<close>

definition startGame :: "string \<Rightarrow> string \<Rightarrow> string \<Rightarrow> string \<Rightarrow> session \<Rightarrow> session" where
  "startGame input_opponent input_logger new_id now_iso s =
     (let opp = (if trim input_opponent = [] then ''Unknown'' else trim input_opponent);
          loggerName = (if trim input_logger = [] then ''Logger 1'' else trim input_logger);
          g = \<lparr>game_id = new_id, date = now_iso, opponent = opp, logger_name = loggerName\<rparr>;
          s1 = dbPut_games g (s\<lparr>currentGame := Some g\<rparr>);
          s2 = s1\<lparr>currentEvents := [], currentHalf := 1, clockSeconds := 0,
                  gameActive := True\<rparr>;
          s3 = s2\<lparr>half_indicator := ''HALF 1'', header_opponent := ''vs '' @ opp,
                  btn_half2_hidden := True, btn_end_game_hidden := True,
                  btn_resume_logging_hidden := True\<rparr>
      in showScreen ''logging'' (startClock (updateRecentEvents (updateScoreboard s3))))"

subsection \<open>Half transitions\<close>

definition startHalf2 :: "session \<Rightarrow> session" where
  "startHalf2 s =
     (let s1 = (stopClock s)\<lparr>currentHalf := 2, clockSeconds := 0\<rparr>;
          s2 = s1\<lparr>half_indicator := ''HALF 2'', btn_half2_hidden := True,
                  btn_end_game_hidden := False\<rparr>
      in showToast ''HALF 2 STARTED'' (startClock (updateRecentEvents s2)))"

subsection \<open>Review screen\<close>

definition filter_pred :: "string \<Rightarrow> string \<Rightarrow> string \<Rightarrow> event \<Rightarrow> bool" where
  "filter_pred hlf team type e =
     (if hlf \<noteq> ''all'' \<and> Some (half e) \<noteq> parseInt hlf then False
      else if team \<noteq> ''all'' \<and> \<not> endsWith (event_code e) (''_'' @ team) then False
      else if type \<noteq> ''all'' \<and> \<not> startsWith (event_code e) type then False
      else True)"

definition getFilteredEvents :: "session \<Rightarrow> event list" where
  "getFilteredEvents s =
     filter (filter_pred (filter_half s) (filter_team s) (filter_type s)) (currentEvents s)"

definition renderEventsList :: "session \<Rightarrow> session" where
  "renderEventsList s = s\<lparr>events_list := getFilteredEvents s\<rparr>"

definition openReviewScreen :: "session \<Rightarrow> session" where
  "openReviewScreen s =
     (case currentGame s of
        None \<Rightarrow> s
      | Some g \<Rightarrow>
          let pfcGoals = length (filter (\<lambda>e. event_code e = ''GOAL_PFC'') (currentEvents s));
              oppGoals = length (filter (\<lambda>e. event_code e = ''GOAL_OPP'') (currentEvents s));
              s1 = s\<lparr>review_score := Some (pfcGoals, oppGoals)\<rparr>;
              s2 = s1\<lparr>filter_half := ''all'', filter_team := ''all'', filter_type := ''all''\<rparr>;
              s3 = s2\<lparr>adjust_h1 := ''0'', adjust_h2 := ''0''\<rparr>
          in renderEventsList s3)"

definition endGame :: "session \<Rightarrow> session" where
  "endGame s =
     (let s1 = (stopClock s)\<lparr>gameActive := False\<rparr>;
          s2 = s1\<lparr>btn_resume_logging_hidden := False\<rparr>
      in showScreen ''review'' (openReviewScreen s2))"

text \<open>The click handler of \<^verbatim>\<open>btn-resume-logging\<close> installed by \<^verbatim>\<open>attachListeners\<close>.\<close>

definition btn_resume_logging_click :: "session \<Rightarrow> session" where
  "btn_resume_logging_click s =
     (let s1 = showScreen ''logging'' (updateScoreboard s)
      in if \<not> clockInterval s1 \<and> gameActive s1 then startClock s1 else s1)"

text \<open>The \<^verbatim>\<open>change\<close> handler of the three filter selects: the select takes the new value,
  then \<^verbatim>\<open>renderEventsList\<close> runs.\<close>

definition filter_change :: "string \<Rightarrow> string \<Rightarrow> string \<Rightarrow> session \<Rightarrow> session" where
  "filter_change hlf team type s =
     renderEventsList (s\<lparr>filter_half := hlf, filter_team := team, filter_type := type\<rparr>)"

subsection \<open>Time adjust\<close>

text \<open>\<^verbatim>\<open>parseInt(v, 10) || 0\<close>: \<^verbatim>\<open>NaN\<close> and \<open>0\<close> are the falsy results.\<close>

definition parseInt_or_0 :: "string \<Rightarrow> int" where
  "parseInt_or_0 v = (case parseInt v of None \<Rightarrow> 0 | Some n \<Rightarrow> n)"

text \<open>
  The body of the \<^verbatim>\<open>map\<close> callback of \<^verbatim>\<open>applyTimeAdjust\<close>. The sum is the integer
  sum; the script's \<^verbatim>\<open>+\<close> gives that integer when the two numbers and the sum are in
  the exact range.
\<close>

definition adjust_event :: "int \<Rightarrow> int \<Rightarrow> event \<Rightarrow> event" where
  "adjust_event adjH1 adjH2 e =
     (let adj = (if half e = 1 then adjH1 else adjH2);
          newSec = max 0 (t_half_seconds e + adj)
      in e\<lparr>t_half_seconds := newSec\<rparr>)"

definition applyTimeAdjust :: "session \<Rightarrow> session" where
  "applyTimeAdjust s =
     (let adjH1 = parseInt_or_0 (adjust_h1 s);
          adjH2 = parseInt_or_0 (adjust_h2 s)
      in if adjH1 = 0 \<and> adjH2 = 0 then showToast ''No adjustment entered'' s
         else
           let s1 = s\<lparr>currentEvents := map (adjust_event adjH1 adjH2) (currentEvents s)\<rparr>;
               s2 = foldl (\<lambda>st e. dbPut_events e st) s1 (currentEvents s1);
               s3 = s2\<lparr>adjust_h1 := ''0'', adjust_h2 := ''0''\<rparr>
           in showToast ''Times adjusted'' (renderEventsList s3))"

subsection \<open>Export file name\<close>

text \<open>The character class \<^verbatim>\<open>[a-z0-9]\<close> under the flag \<^verbatim>\<open>i\<close>.\<close>

definition isAlnum :: "char \<Rightarrow> bool" where
  "isAlnum c =
     ((CHR ''a'' \<le> c \<and> c \<le> CHR ''z'') \<or> (CHR ''A'' \<le> c \<and> c \<le> CHR ''Z'')
      \<or> (CHR ''0'' \<le> c \<and> c \<le> CHR ''9''))"

text \<open>\<^verbatim>\<open>opponent.replace(/[^a-z0-9]/gi, '_').slice(0, 20)\<close>.\<close>

definition sanitize_opponent :: "string \<Rightarrow> string" where
  "sanitize_opponent opp = take 20 (map (\<lambda>c. if isAlnum c then c else CHR ''_'') opp)"

text \<open>
  \<open>Date_parse\<close> is the time value \<^verbatim>\<open>new Date(str)\<close> holds (\<open>None\<close> for an invalid date)
  and \<open>toISOString\<close> prints a time value; both belong to the platform. \<^verbatim>\<open>toISOString\<close> on
  an invalid date throws a \<^verbatim>\<open>RangeError\<close>; reading a field of \<^verbatim>\<open>null\<close> throws a
  \<^verbatim>\<open>TypeError\<close>.
\<close>

definition buildFilename ::
  "(string \<Rightarrow> int option) \<Rightarrow> (int \<Rightarrow> string) \<Rightarrow> string \<Rightarrow> session \<Rightarrow> js_error + string" where
  "buildFilename Date_parse toISOString ext s =
     (case currentGame s of
        None \<Rightarrow> Inl TypeError
      | Some g \<Rightarrow>
          (case Date_parse (date g) of
             None \<Rightarrow> Inl RangeError
           | Some t \<Rightarrow>
               Inr (''GameMoments_'' @ take 10 (toISOString t) @ ''_''
                    @ sanitize_opponent (opponent g) @ ''.'' @ ext)))"

subsection \<open>Saved games\<close>

text \<open>The comparator \<^verbatim>\<open>(a, b) => new Date(b.date) - new Date(a.date)\<close>: \<^verbatim>\<open>NaN\<close> when either
  date is invalid.\<close>

definition games_comparefn :: "(string \<Rightarrow> int option) \<Rightarrow> game \<Rightarrow> game \<Rightarrow> int option" where
  "games_comparefn Date_parse a b =
     (case (Date_parse (date b), Date_parse (date a)) of
        (Some tb, Some ta) \<Rightarrow> Some (tb - ta)
      | _ \<Rightarrow> None)"

definition viewSavedGames :: "(string \<Rightarrow> int option) \<Rightarrow> session \<Rightarrow> session" where
  "viewSavedGames Date_parse s =
     (let games = array_sort (games_comparefn Date_parse) (dbGetAll_games s)
      in if games = [] then showScreen ''games'' (s\<lparr>games_list := []\<rparr>)
         else
           let eventCounts = map (\<lambda>g. length (dbGetEventsByGame (game_id g) s)) games
           in showScreen ''games'' (s\<lparr>games_list := zip games eventCounts\<rparr>))"

text \<open>The comparator of \<^verbatim>\<open>loadSavedGame\<close>: by half, then by time within the half.\<close>

definition events_comparefn :: "event \<Rightarrow> event \<Rightarrow> int option" where
  "events_comparefn a b =
     (if half a \<noteq> half b then Some (half a - half b)
      else Some (t_half_seconds a - t_half_seconds b))"

definition loadSavedGame :: "string \<Rightarrow> session \<Rightarrow> session" where
  "loadSavedGame gameId s =
     (let games = dbGetAll_games s;
          s1 = s\<lparr>currentGame := find (\<lambda>g. game_id g = gameId) games\<rparr>
      in if currentGame s1 = None then s1
         else
           let s2 = s1\<lparr>currentEvents := array_sort events_comparefn (dbGetEventsByGame gameId s1)\<rparr>;
               s3 = s2\<lparr>gameActive := False, btn_resume_logging_hidden := True\<rparr>
           in showScreen ''review'' (openReviewScreen s3))"

subsection \<open>The state at page load, and example sessions\<close>

text \<open>
  The initial values of the variables (lines 57 to 64) on a device with an empty database,
  after the \<^verbatim>\<open>DOMContentLoaded\<close> handler has shown the setup screen. The selects and the
  offset inputs hold the values \<^verbatim>\<open>openReviewScreen\<close> resets them to.
\<close>

definition fresh_session :: session where
  "fresh_session =
     \<lparr>currentGame = None, currentEvents = [], currentHalf = 1, clockSeconds = 0,
      clockInterval = False, gameActive = False, db_games = [], db_events = [],
      screen = ''setup'', toast = [], score_pfc = 0, score_opp = 0, recent_events = [],
      review_score = None, events_list = [], games_list = [],
      filter_half = ''all'', filter_team = ''all'', filter_type = ''all'',
      adjust_h1 = ''0'', adjust_h2 = ''0'', half_indicator = ''HALF 1'',
      header_opponent = [], btn_half2_hidden = True, btn_end_game_hidden = True,
      btn_resume_logging_hidden = True\<rparr>"

text \<open>A game against Riverside logged by Coach A, 125 seconds into the first half.\<close>

definition example_game :: game where
  "example_game =
     \<lparr>game_id = ''game_1700000000000'', date = ''2023-11-14T22:13:20.000Z'',
      opponent = ''Riverside'', logger_name = ''Coach A''\<rparr>"

definition example_live :: session where
  "example_live =
     (startGame '' Riverside'' ''Coach A'' ''game_1700000000000'' ''2023-11-14T22:13:20.000Z''
        fresh_session)\<lparr>clockSeconds := 125\<rparr>"

text \<open>The same game 40 seconds into the second half, one goal logged in the first.\<close>

definition example_second_half :: session where
  "example_second_half =
     (startHalf2
        (logEvent ''GOAL_PFC'' ''ev_1700000125000_k3x9q'' ''2023-11-14T22:15:25.000Z''
           example_live))\<lparr>clockSeconds := 40\<rparr>"

text \<open>An event of the example game with the given id, half, time and code.\<close>

definition example_event :: "string \<Rightarrow> int \<Rightarrow> int \<Rightarrow> string \<Rightarrow> event" where
  "example_event i h t c =
     \<lparr>event_id = i, ev_game_id = ''game_1700000000000'', half = h, t_half_seconds = t,
      event_code = c, created_at = ''2023-11-14T22:15:25.000Z''\<rparr>"

text \<open>A review session of the example game holding the given events, in memory and stored.\<close>

definition example_review :: "event list \<Rightarrow> session" where
  "example_review es =
     fresh_session\<lparr>currentGame := Some example_game, currentEvents := es,
       db_games := [example_game], db_events := es, screen := ''review''\<rparr>"

text \<open>
  Two more saved games, and the platform's \<^verbatim>\<open>Date\<close> on the three dates of the examples:
  the time value of each date string, and the string \<^verbatim>\<open>toISOString\<close> prints for each
  time value.
\<close>

definition example_game_december :: game where
  "example_game_december =
     \<lparr>game_id = ''game_1703496600000'', date = ''2023-12-25T09:30:00.000Z'',
      opponent = ''Lakeside'', logger_name = ''Logger 1''\<rparr>"

definition example_game_march :: game where
  "example_game_march =
     \<lparr>game_id = ''game_1709287200000'', date = ''2024-03-01T10:00:00.000Z'',
      opponent = ''FC Riverside United 2024!'', logger_name = ''Coach A''\<rparr>"

definition example_Date_parse :: "string \<Rightarrow> int option" where
  "example_Date_parse d =
     (if d = ''2023-11-14T22:13:20.000Z'' then Some 1700000000000
      else if d = ''2023-12-25T09:30:00.000Z'' then Some 1703496600000
      else if d = ''2024-03-01T10:00:00.000Z'' then Some 1709287200000
      else None)"

definition example_time_value :: "string \<Rightarrow> int" where
  "example_time_value d = (case example_Date_parse d of None \<Rightarrow> 0 | Some t \<Rightarrow> t)"

definition example_toISOString :: "int \<Rightarrow> string" where
  "example_toISOString t =
     (if t = 1700000000000 then ''2023-11-14T22:13:20.000Z''
      else if t = 1703496600000 then ''2023-12-25T09:30:00.000Z''
      else if t = 1709287200000 then ''2024-03-01T10:00:00.000Z''
      else [])"

text \<open>A session with the three games stored, in key order, at the setup screen.\<close>

definition example_saved :: session where
  "example_saved =
     fresh_session\<lparr>db_games := [example_game, example_game_december, example_game_march],
       db_events := [example_event ''ev_1700000125000_k3x9q'' 1 125 ''GOAL_PFC'']\<rparr>"

text \<open>The review session of the game of March, nothing logged.\<close>

definition example_review_march :: session where
  "example_review_march =
     fresh_session\<lparr>currentGame := Some example_game_march,
       db_games := [example_game, example_game_december, example_game_march],
       screen := ''review''\<rparr>"

text \<open>
  The order the review list is to have: by half, then by time within the half.
\<close>

abbreviation half_then_time :: "event \<Rightarrow> event \<Rightarrow> bool" where
  "half_then_time a b \<equiv>
     half a < half b \<or> (half a = half b \<and> t_half_seconds a \<le> t_half_seconds b)"

section \<open>Properties\<close>

subsection \<open>The example sessions\<close>

lemma example_live_fields:
  "currentGame example_live = Some example_game \<and> gameActive example_live
   \<and> clockInterval example_live \<and> currentEvents example_live = []
   \<and> db_events example_live = [] \<and> db_games example_live = [example_game]
   \<and> currentHalf example_live = 1 \<and> clockSeconds example_live = 125"
  by (simp add: example_live_def example_game_def startGame_def fresh_session_def Let_def
        trim_def isStrWhiteSpaceChar_def dbPut_games_def showScreen_def startClock_def
        stopClock_def updateRecentEvents_def updateScoreboard_def)

lemma example_second_half_fields:
  "currentGame example_second_half = Some example_game \<and> gameActive example_second_half
   \<and> clockInterval example_second_half \<and> currentHalf example_second_half = 2
   \<and> clockSeconds example_second_half = 40
   \<and> db_games example_second_half = [example_game]
   \<and> currentEvents example_second_half =
       [\<lparr>event_id = ''ev_1700000125000_k3x9q'', ev_game_id = ''game_1700000000000'',
         half = 1, t_half_seconds = 125, event_code = ''GOAL_PFC'',
         created_at = ''2023-11-14T22:15:25.000Z''\<rparr>]"
  using example_live_fields
  by (simp add: example_second_half_def startHalf2_def logEvent_def Let_def example_game_def
        dbPut_events_def showToast_def startClock_def stopClock_def updateRecentEvents_def
        updateScoreboard_def)

subsection \<open>The object stores\<close>

lemma idb_delete_put_fresh:
  "\<forall>x\<in>set xs. key x \<noteq> key r \<Longrightarrow> idb_delete key (key r) (idb_put key r xs) = xs"
  by (induction xs) (auto simp: idb_delete_def)

lemma idb_get_delete: "idb_get key k (idb_delete key k xs) = None"
  by (induction xs) (auto simp: idb_delete_def idb_get_def)

lemma idb_get_put:
  "idb_get key k (idb_put key r xs) = (if k = key r then Some r else idb_get key k xs)"
  by (induction xs) (auto simp: idb_get_def)

lemma idb_get_foldl_put:
  "distinct (map key es) \<Longrightarrow> e \<in> set es \<Longrightarrow>
   idb_get key (key e) (foldl (\<lambda>d e. idb_put key e d) d es) = Some e"
proof (induction es arbitrary: e rule: rev_induct)
  case Nil
  then show ?case by simp
next
  case (snoc x xs)
  then show ?case by (auto simp: idb_get_put image_iff)
qed

lemma foldl_dbPut_events:
  "foldl (\<lambda>st e. dbPut_events e st) s es =
     s\<lparr>db_events := foldl (\<lambda>d e. idb_put event_id e d) (db_events s) es\<rparr>"
  by (induction es arbitrary: s) (simp_all add: dbPut_events_def)

subsection \<open>Sorting with a comparator\<close>

lemma mset_sort_insert: "mset (sort_insert cmp x ys) = add_mset x (mset ys)"
  by (induction ys) simp_all

lemma array_sort_Cons: "array_sort cmp (x # xs) = sort_insert cmp x (array_sort cmp xs)"
  by (simp add: array_sort_def)

lemma mset_array_sort: "mset (array_sort cmp xs) = mset xs"
  by (induction xs) (simp_all add: array_sort_Cons mset_sort_insert, simp add: array_sort_def)

lemma set_array_sort: "set (array_sort cmp xs) = set xs"
  using mset_array_sort [of cmp xs] by (metis set_mset_mset)

lemma set_sort_insert: "set (sort_insert cmp x ys) = insert x (set ys)"
  using mset_sort_insert [of cmp x ys] by (metis set_mset_add_mset_insert set_mset_mset)

text \<open>
  Inserting into a list ordered by \<open>P\<close> keeps it ordered, when \<open>P\<close> is total and transitive
  and the comparator says \<open>\<le> 0\<close> exactly where \<open>P\<close> holds.
\<close>

lemma sorted_wrt_sort_insert:
  assumes tot: "\<And>a b. \<not> P a b \<Longrightarrow> P b a"
    and tr: "\<And>a b c. P a b \<Longrightarrow> P b c \<Longrightarrow> P a c"
    and agree: "\<And>y. y \<in> set ys \<Longrightarrow> (SortCompare cmp x y \<le> 0) = P x y"
    and srt: "sorted_wrt P ys"
  shows "sorted_wrt P (sort_insert cmp x ys)"
  using agree srt
proof (induction ys)
  case Nil
  then show ?case by simp
next
  case (Cons y ys)
  show ?case
  proof (cases "SortCompare cmp x y \<le> 0")
    case True
    then have xy: "P x y" using Cons.prems(1) by simp
    have "\<forall>z \<in> set ys. P x z" using xy Cons.prems(2) tr by auto
    then show ?thesis using True xy Cons.prems(2) by simp
  next
    case False
    then have yx: "P y x" using Cons.prems(1) tot by simp
    have ih: "sorted_wrt P (sort_insert cmp x ys)"
      using Cons.IH Cons.prems by simp
    show ?thesis using False yx ih Cons.prems(2) by (simp add: set_sort_insert)
  qed
qed

lemma sorted_wrt_array_sort:
  assumes tot: "\<And>a b. \<not> P a b \<Longrightarrow> P b a"
    and tr: "\<And>a b c. P a b \<Longrightarrow> P b c \<Longrightarrow> P a c"
    and agree: "\<And>x y. x \<in> set xs \<Longrightarrow> y \<in> set xs \<Longrightarrow> (SortCompare cmp x y \<le> 0) = P x y"
  shows "sorted_wrt P (array_sort cmp xs)"
  using agree
proof (induction xs)
  case Nil
  then show ?case by (simp add: array_sort_def)
next
  case (Cons x xs)
  have ih: "sorted_wrt P (array_sort cmp xs)" using Cons by simp
  show ?case
    unfolding array_sort_Cons
    by (rule sorted_wrt_sort_insert [OF tot tr _ ih]) (simp_all add: set_array_sort Cons.prems)
qed

subsection \<open>Scoreboard\<close>

lemma foldl_score_step:
  "foldl score_step acc es =
     (fst acc + count_list (map event_code es) ''GOAL_PFC'',
      snd acc + count_list (map event_code es) ''GOAL_OPP'')"
  by (induction es arbitrary: acc) (simp_all add: score_step_def)

lemma length_filter_code:
  "length (filter (\<lambda>e. event_code e = c) es) = count_list (map event_code es) c"
  by (induction es) simp_all

lemma review_score_openReviewScreen:
  "currentGame s = Some g \<Longrightarrow>
   review_score (openReviewScreen s) =
     Some (count_list (map event_code (currentEvents s)) ''GOAL_PFC'',
           count_list (map event_code (currentEvents s)) ''GOAL_OPP'')"
  by (simp add: openReviewScreen_def renderEventsList_def length_filter_code Let_def)

lemma currentEvents_updateScoreboard [simp]:
  "currentEvents (updateScoreboard s) = currentEvents s"
  by (simp add: updateScoreboard_def Let_def)

lemma db_events_updateScoreboard [simp]:
  "db_events (updateScoreboard s) = db_events s"
  by (simp add: updateScoreboard_def Let_def)

text \<open>
  Claim C1. For every in-memory event list the scoreboard is the pair (number of events
  with code \<^verbatim>\<open>GOAL_PFC\<close>, number of events with code \<^verbatim>\<open>GOAL_OPP\<close>): it depends on the
  list of event codes only, so two sessions whose events carry the same codes in the same
  order show the same score whatever the other fields hold. The score of the review screen
  is the same pair, counted on the whole of \<open>currentEvents\<close>: whatever the three filter
  selects hold when the review screen opens the score is that pair, and changing a filter
  afterwards leaves it as it is.
\<close>

theorem C1_scoreboard_counts_goals:
  "score_pfc (updateScoreboard s) = count_list (map event_code (currentEvents s)) ''GOAL_PFC''
   \<and> score_opp (updateScoreboard s) = count_list (map event_code (currentEvents s)) ''GOAL_OPP''
   \<and> (map event_code (currentEvents s) = map event_code (currentEvents s') \<longrightarrow>
        score_pfc (updateScoreboard s) = score_pfc (updateScoreboard s')
        \<and> score_opp (updateScoreboard s) = score_opp (updateScoreboard s'))
   \<and> (currentGame s \<noteq> None \<longrightarrow>
        review_score
          (openReviewScreen (s\<lparr>filter_half := fh, filter_team := ft, filter_type := fy\<rparr>)) =
          Some (count_list (map event_code (currentEvents s)) ''GOAL_PFC'',
                count_list (map event_code (currentEvents s)) ''GOAL_OPP''))
   \<and> review_score (filter_change fh ft fy s) = review_score s"
proof -
  have a: "score_pfc (updateScoreboard s) =
      count_list (map event_code (currentEvents s)) ''GOAL_PFC''" for s
    by (simp add: updateScoreboard_def Let_def foldl_score_step)
  have b: "score_opp (updateScoreboard s) =
      count_list (map event_code (currentEvents s)) ''GOAL_OPP''" for s
    by (simp add: updateScoreboard_def Let_def foldl_score_step)
  have c: "currentGame s \<noteq> None \<longrightarrow>
        review_score
          (openReviewScreen (s\<lparr>filter_half := fh, filter_team := ft, filter_type := fy\<rparr>)) =
          Some (count_list (map event_code (currentEvents s)) ''GOAL_PFC'',
                count_list (map event_code (currentEvents s)) ''GOAL_OPP'')"
    using review_score_openReviewScreen
      [of "s\<lparr>filter_half := fh, filter_team := ft, filter_type := fy\<rparr>"]
    by auto
  have d: "review_score (filter_change fh ft fy s) = review_score s"
    by (simp add: filter_change_def renderEventsList_def)
  show ?thesis using a b c d by simp
qed

text \<open>
  Two goals for PFC and one for the opponent among four events; a second list with the same
  codes and other ids, halves and times; the review score under the filter
  (half 1, PFC, GOAL).
\<close>

theorem C1_scoreboard_counts_goals_witness:
  "currentGame (example_review
     [example_event ''ev_1'' 1 125 ''GOAL_PFC'', example_event ''ev_2'' 1 300 ''CK_OPP'',
      example_event ''ev_3'' 2 10 ''GOAL_OPP'', example_event ''ev_4'' 2 20 ''GOAL_PFC'']) \<noteq> None
   \<and> map event_code (currentEvents (example_review
       [example_event ''ev_1'' 1 125 ''GOAL_PFC'', example_event ''ev_2'' 1 300 ''CK_OPP'',
        example_event ''ev_3'' 2 10 ''GOAL_OPP'', example_event ''ev_4'' 2 20 ''GOAL_PFC''])) =
     map event_code (currentEvents (example_review
       [example_event ''ev_5'' 2 0 ''GOAL_PFC'', example_event ''ev_6'' 2 1 ''CK_OPP'',
        example_event ''ev_7'' 2 2 ''GOAL_OPP'', example_event ''ev_8'' 2 3 ''GOAL_PFC'']))
   \<and> score_pfc (updateScoreboard (example_review
       [example_event ''ev_1'' 1 125 ''GOAL_PFC'', example_event ''ev_2'' 1 300 ''CK_OPP'',
        example_event ''ev_3'' 2 10 ''GOAL_OPP'', example_event ''ev_4'' 2 20 ''GOAL_PFC''])) = 2
   \<and> score_opp (updateScoreboard (example_review
       [example_event ''ev_1'' 1 125 ''GOAL_PFC'', example_event ''ev_2'' 1 300 ''CK_OPP'',
        example_event ''ev_3'' 2 10 ''GOAL_OPP'', example_event ''ev_4'' 2 20 ''GOAL_PFC''])) = 1
   \<and> score_pfc (updateScoreboard (example_review
       [example_event ''ev_5'' 2 0 ''GOAL_PFC'', example_event ''ev_6'' 2 1 ''CK_OPP'',
        example_event ''ev_7'' 2 2 ''GOAL_OPP'', example_event ''ev_8'' 2 3 ''GOAL_PFC''])) = 2
   \<and> review_score (openReviewScreen ((example_review
       [example_event ''ev_1'' 1 125 ''GOAL_PFC'', example_event ''ev_2'' 1 300 ''CK_OPP'',
        example_event ''ev_3'' 2 10 ''GOAL_OPP'', example_event ''ev_4'' 2 20 ''GOAL_PFC''])
         \<lparr>filter_half := ''1'', filter_team := ''PFC'', filter_type := ''GOAL''\<rparr>)) = Some (2, 1)"
  using C1_scoreboard_counts_goals
    [where s = "example_review
       [example_event ''ev_1'' 1 125 ''GOAL_PFC'', example_event ''ev_2'' 1 300 ''CK_OPP'',
        example_event ''ev_3'' 2 10 ''GOAL_OPP'', example_event ''ev_4'' 2 20 ''GOAL_PFC'']"
      and s' = "example_review
       [example_event ''ev_5'' 2 0 ''GOAL_PFC'', example_event ''ev_6'' 2 1 ''CK_OPP'',
        example_event ''ev_7'' 2 2 ''GOAL_OPP'', example_event ''ev_8'' 2 3 ''GOAL_PFC'']"
      and fh = "''1''" and ft = "''PFC''" and fy = "''GOAL''"]
  by (simp add: example_review_def example_event_def fresh_session_def)

subsection \<open>Event logging and undo\<close>

lemma currentEvents_logEvent:
  "currentGame s = Some g \<Longrightarrow> gameActive s \<Longrightarrow>
   currentEvents (logEvent code eid ts s) =
     currentEvents s @ [\<lparr>event_id = eid, ev_game_id = game_id g, half = currentHalf s,
        t_half_seconds = clockSeconds s, event_code = code, created_at = ts\<rparr>]"
  by (simp add: logEvent_def Let_def dbPut_events_def updateRecentEvents_def)

lemma db_events_logEvent:
  "currentGame s = Some g \<Longrightarrow> gameActive s \<Longrightarrow>
   db_events (logEvent code eid ts s) =
     idb_put event_id \<lparr>event_id = eid, ev_game_id = game_id g, half = currentHalf s,
        t_half_seconds = clockSeconds s, event_code = code, created_at = ts\<rparr> (db_events s)"
  by (simp add: logEvent_def Let_def dbPut_events_def updateRecentEvents_def)

lemma undoLastEvent_snoc:
  "currentEvents s = L @ [e] \<Longrightarrow>
   currentEvents (undoLastEvent s) = L
   \<and> db_events (undoLastEvent s) = idb_delete event_id (event_id e) (db_events s)"
  by (simp add: undoLastEvent_def Let_def showToast_def dbDelete_events_def updateRecentEvents_def)

text \<open>
  Claim C2. Undo right after an append gives the list back: for every list \<open>L\<close> and event
  \<open>e\<close>, undo on the list \<open>L @ [e]\<close> leaves exactly \<open>L\<close> in memory and deletes the record
  with \<open>e\<close>'s id from the event store, so that no record with that id is stored any more.
  For the script's own append: in a live session, \<open>undoLastEvent\<close> after \<open>logEvent\<close>
  restores \<open>currentEvents\<close>, the store holds no record under the new event's id, and when
  that id was not in the store before, the store is as it was.
\<close>

theorem C2_undo_after_append:
  "currentEvents (undoLastEvent (s\<lparr>currentEvents := L @ [e]\<rparr>)) = L
   \<and> db_events (undoLastEvent (s\<lparr>currentEvents := L @ [e]\<rparr>)) =
       idb_delete event_id (event_id e) (db_events s)
   \<and> idb_get event_id (event_id e)
       (db_events (undoLastEvent (s\<lparr>currentEvents := L @ [e]\<rparr>))) = None
   \<and> (currentGame s \<noteq> None \<and> gameActive s \<longrightarrow>
        currentEvents (undoLastEvent (logEvent code eid ts s)) = currentEvents s
        \<and> idb_get event_id eid (db_events (undoLastEvent (logEvent code eid ts s))) = None
        \<and> (eid \<notin> event_id ` set (db_events s) \<longrightarrow>
             db_events (undoLastEvent (logEvent code eid ts s)) = db_events s))"
proof -
  let ?s = "s\<lparr>currentEvents := L @ [e]\<rparr>"
  have a: "currentEvents (undoLastEvent ?s) = L
     \<and> db_events (undoLastEvent ?s) = idb_delete event_id (event_id e) (db_events s)"
    using undoLastEvent_snoc [of ?s L e] by simp
  have b: "idb_get event_id (event_id e) (db_events (undoLastEvent ?s)) = None"
    using a by (simp add: idb_get_delete)
  have c: "currentEvents (undoLastEvent (logEvent code eid ts s)) = currentEvents s
        \<and> idb_get event_id eid (db_events (undoLastEvent (logEvent code eid ts s))) = None
        \<and> (eid \<notin> event_id ` set (db_events s) \<longrightarrow>
             db_events (undoLastEvent (logEvent code eid ts s)) = db_events s)"
    if g: "currentGame s = Some g" and live: "gameActive s" for g
  proof -
    let ?e = "\<lparr>event_id = eid, ev_game_id = game_id g, half = currentHalf s,
        t_half_seconds = clockSeconds s, event_code = code, created_at = ts\<rparr>"
    have ce: "currentEvents (logEvent code eid ts s) = currentEvents s @ [?e]"
      using g live by (rule currentEvents_logEvent)
    have de: "db_events (logEvent code eid ts s) = idb_put event_id ?e (db_events s)"
      using g live by (rule db_events_logEvent)
    have u: "currentEvents (undoLastEvent (logEvent code eid ts s)) = currentEvents s
      \<and> db_events (undoLastEvent (logEvent code eid ts s)) =
          idb_delete event_id eid (idb_put event_id ?e (db_events s))"
      using undoLastEvent_snoc [OF ce] de by simp
    have fresh: "idb_delete event_id eid (idb_put event_id ?e (db_events s)) = db_events s"
      if "eid \<notin> event_id ` set (db_events s)"
      using that idb_delete_put_fresh [of "db_events s" event_id ?e] by auto
    show ?thesis using u fresh by (simp add: idb_get_delete)
  qed
  show ?thesis using a b c by auto
qed

text \<open>
  A corner for the opponent logged in the second half of the example game and undone: the
  goal of the first half is again the only event, in memory and in the store.
\<close>

theorem C2_undo_after_append_witness:
  "currentGame example_second_half \<noteq> None \<and> gameActive example_second_half
   \<and> ''ev_1700000200000_p0q1r'' \<notin> event_id ` set (db_events example_second_half)
   \<and> currentEvents (undoLastEvent (logEvent ''CK_OPP'' ''ev_1700000200000_p0q1r''
        ''2023-11-14T22:16:40.000Z'' example_second_half)) = currentEvents example_second_half
   \<and> db_events (undoLastEvent (logEvent ''CK_OPP'' ''ev_1700000200000_p0q1r''
        ''2023-11-14T22:16:40.000Z'' example_second_half)) = db_events example_second_half
   \<and> currentEvents (undoLastEvent (fresh_session\<lparr>currentEvents :=
        [example_event ''ev_1'' 1 10 ''KO_PFC''] @ [example_event ''ev_2'' 1 20 ''CK_OPP'']\<rparr>)) =
       [example_event ''ev_1'' 1 10 ''KO_PFC'']"
proof -
  have d: "db_events example_second_half =
      [\<lparr>event_id = ''ev_1700000125000_k3x9q'', ev_game_id = ''game_1700000000000'',
        half = 1, t_half_seconds = 125, event_code = ''GOAL_PFC'',
        created_at = ''2023-11-14T22:15:25.000Z''\<rparr>]"
    using example_live_fields
    by (simp add: example_second_half_def startHalf2_def logEvent_def Let_def example_game_def
        dbPut_events_def showToast_def startClock_def stopClock_def updateRecentEvents_def
        updateScoreboard_def)
  show ?thesis
    using example_second_half_fields d
      C2_undo_after_append [where s = example_second_half and code = "''CK_OPP''"
        and eid = "''ev_1700000200000_p0q1r''" and ts = "''2023-11-14T22:16:40.000Z''"]
      C2_undo_after_append [where s = fresh_session
        and L = "[example_event ''ev_1'' 1 10 ''KO_PFC'']"
        and e = "example_event ''ev_2'' 1 20 ''CK_OPP''"]
    by simp
qed

text \<open>
  Claim C3. \<open>logEvent\<close> changes nothing, the event list or any other part of the session,
  when there is no current game or the session is not live. In a live session with current
  game \<open>g\<close> it appends one event to the events already logged, which stay as they were; the
  new event's half is the current half, its \<open>t_half_seconds\<close> is the current clock value and
  its game id is the id of \<open>g\<close>.
\<close>

theorem C3_logEvent_guard_and_snapshot:
  "(currentGame s = None \<or> \<not> gameActive s \<longrightarrow> logEvent code eid ts s = s)
   \<and> (currentGame s = Some g \<and> gameActive s \<longrightarrow>
        currentEvents (logEvent code eid ts s) =
          currentEvents s @ [\<lparr>event_id = eid, ev_game_id = game_id g, half = currentHalf s,
             t_half_seconds = clockSeconds s, event_code = code, created_at = ts\<rparr>])"
proof -
  have a: "currentGame s = None \<or> \<not> gameActive s \<longrightarrow> logEvent code eid ts s = s"
    by (simp add: logEvent_def split: option.splits)
  show ?thesis using a currentEvents_logEvent [of s g code eid ts] by blast
qed

text \<open>
  A goal for PFC at 125 seconds of the first half of the example game; and the same tap
  before any game was started, and on the game loaded for review, where nothing happens.
\<close>

theorem C3_logEvent_guard_and_snapshot_witness:
  "currentGame example_live = Some example_game \<and> gameActive example_live
   \<and> currentEvents (logEvent ''GOAL_PFC'' ''ev_1700000125000_k3x9q''
        ''2023-11-14T22:15:25.000Z'' example_live) =
       [\<lparr>event_id = ''ev_1700000125000_k3x9q'', ev_game_id = ''game_1700000000000'',
         half = 1, t_half_seconds = 125, event_code = ''GOAL_PFC'',
         created_at = ''2023-11-14T22:15:25.000Z''\<rparr>]
   \<and> currentGame fresh_session = None
   \<and> logEvent ''GOAL_PFC'' ''ev_1700000125000_k3x9q'' ''2023-11-14T22:15:25.000Z''
        fresh_session = fresh_session
   \<and> \<not> gameActive (example_review [])
   \<and> logEvent ''GOAL_PFC'' ''ev_1700000125000_k3x9q'' ''2023-11-14T22:15:25.000Z''
        (example_review []) = example_review []"
proof -
  have f: "currentGame fresh_session = None \<and> \<not> gameActive (example_review [])"
    by (simp add: fresh_session_def example_review_def)
  show ?thesis
    using example_live_fields f
      C3_logEvent_guard_and_snapshot [where s = example_live and code = "''GOAL_PFC''"
        and eid = "''ev_1700000125000_k3x9q''" and ts = "''2023-11-14T22:15:25.000Z''"
        and g = example_game]
      C3_logEvent_guard_and_snapshot [where s = fresh_session and code = "''GOAL_PFC''"
        and eid = "''ev_1700000125000_k3x9q''" and ts = "''2023-11-14T22:15:25.000Z''"]
      C3_logEvent_guard_and_snapshot [where s = "example_review []" and code = "''GOAL_PFC''"
        and eid = "''ev_1700000125000_k3x9q''" and ts = "''2023-11-14T22:15:25.000Z''"]
    by (simp add: example_game_def)
qed

subsection \<open>Time adjust\<close>

lemma applyTimeAdjust_zero:
  "parseInt_or_0 (adjust_h1 s) = 0 \<Longrightarrow> parseInt_or_0 (adjust_h2 s) = 0 \<Longrightarrow>
   applyTimeAdjust s = showToast ''No adjustment entered'' s"
  by (simp add: applyTimeAdjust_def)

lemma applyTimeAdjust_nonzero:
  "parseInt_or_0 (adjust_h1 s) \<noteq> 0 \<or> parseInt_or_0 (adjust_h2 s) \<noteq> 0 \<Longrightarrow>
   currentEvents (applyTimeAdjust s) =
     map (adjust_event (parseInt_or_0 (adjust_h1 s)) (parseInt_or_0 (adjust_h2 s)))
       (currentEvents s)
   \<and> db_events (applyTimeAdjust s) =
       foldl (\<lambda>d e. idb_put event_id e d) (db_events s)
         (map (adjust_event (parseInt_or_0 (adjust_h1 s)) (parseInt_or_0 (adjust_h2 s)))
            (currentEvents s))"
  by (auto simp: applyTimeAdjust_def Let_def foldl_dbPut_events showToast_def
        renderEventsList_def)

lemma event_id_adjust_event [simp]: "event_id (adjust_event a b e) = event_id e"
  by (simp add: adjust_event_def Let_def)

lemma parseInt_or_0_numerals:
  "parseInt_or_0 ''0'' = 0 \<and> parseInt_or_0 ''20'' = 20 \<and> parseInt_or_0 ''-30'' = - 30
   \<and> parseInt_or_0 ''5'' = 5"
  by (simp add: parseInt_or_0_def parseInt_def isStrWhiteSpaceChar_def isDigit_def
        digitValue_def)

text \<open>
  Claim C4. Let the offsets be the two numbers read from the offset inputs. When both are
  zero the adjustment is refused: the event list and the event store are as before and the
  notice is shown. Otherwise the list keeps its length and, position by position, an event
  of half 1 gets \<open>max 0 (old + adjH1)\<close> and an event of half 2 gets \<open>max 0 (old + adjH2)\<close>,
  whenever the offset, the old time and their sum are in the exact range (below \<open>2 ^ 53\<close>
  in absolute value), where the script's \<^verbatim>\<open>parseInt\<close> and \<^verbatim>\<open>+\<close> give these very
  integers; the new time is not negative, and the event differs from the old one in
  \<open>t_half_seconds\<close> alone (so the half is kept). When the ids in the list are distinct,
  the store then holds each adjusted event under its id.
\<close>

theorem C4_time_adjust:
  "(parseInt_or_0 (adjust_h1 s) = 0 \<and> parseInt_or_0 (adjust_h2 s) = 0 \<longrightarrow>
      currentEvents (applyTimeAdjust s) = currentEvents s
      \<and> db_events (applyTimeAdjust s) = db_events s
      \<and> toast (applyTimeAdjust s) = ''No adjustment entered'')
   \<and> (parseInt_or_0 (adjust_h1 s) \<noteq> 0 \<or> parseInt_or_0 (adjust_h2 s) \<noteq> 0 \<longrightarrow>
      length (currentEvents (applyTimeAdjust s)) = length (currentEvents s)
      \<and> (\<forall>i < length (currentEvents s).
           (half (currentEvents s ! i) = 1
            \<and> exact_range (parseInt_or_0 (adjust_h1 s))
            \<and> exact_range (t_half_seconds (currentEvents s ! i))
            \<and> exact_range (t_half_seconds (currentEvents s ! i) + parseInt_or_0 (adjust_h1 s))
            \<longrightarrow>
              t_half_seconds (currentEvents (applyTimeAdjust s) ! i) =
                max 0 (t_half_seconds (currentEvents s ! i) + parseInt_or_0 (adjust_h1 s)))
         \<and> (half (currentEvents s ! i) = 2
            \<and> exact_range (parseInt_or_0 (adjust_h2 s))
            \<and> exact_range (t_half_seconds (currentEvents s ! i))
            \<and> exact_range (t_half_seconds (currentEvents s ! i) + parseInt_or_0 (adjust_h2 s))
            \<longrightarrow>
              t_half_seconds (currentEvents (applyTimeAdjust s) ! i) =
                max 0 (t_half_seconds (currentEvents s ! i) + parseInt_or_0 (adjust_h2 s)))
         \<and> \<not> t_half_seconds (currentEvents (applyTimeAdjust s) ! i) < 0
         \<and> currentEvents (applyTimeAdjust s) ! i =
             (currentEvents s ! i)
               \<lparr>t_half_seconds := t_half_seconds (currentEvents (applyTimeAdjust s) ! i)\<rparr>)
      \<and> (distinct (map event_id (currentEvents s)) \<longrightarrow>
           (\<forall>e \<in> set (currentEvents (applyTimeAdjust s)).
              idb_get event_id (event_id e) (db_events (applyTimeAdjust s)) = Some e)))"
proof (intro conjI impI)
  assume z: "parseInt_or_0 (adjust_h1 s) = 0 \<and> parseInt_or_0 (adjust_h2 s) = 0"
  then have "applyTimeAdjust s = showToast ''No adjustment entered'' s"
    by (simp add: applyTimeAdjust_zero)
  then show "currentEvents (applyTimeAdjust s) = currentEvents s"
    and "db_events (applyTimeAdjust s) = db_events s"
    and "toast (applyTimeAdjust s) = ''No adjustment entered''"
    by (simp_all add: showToast_def)
next
  assume nz: "parseInt_or_0 (adjust_h1 s) \<noteq> 0 \<or> parseInt_or_0 (adjust_h2 s) \<noteq> 0"
  let ?a = "parseInt_or_0 (adjust_h1 s)" and ?b = "parseInt_or_0 (adjust_h2 s)"
  note eqs = applyTimeAdjust_nonzero [OF nz]
  show "length (currentEvents (applyTimeAdjust s)) = length (currentEvents s)"
    using eqs by simp
  show "\<forall>i < length (currentEvents s).
           (half (currentEvents s ! i) = 1
            \<and> exact_range ?a
            \<and> exact_range (t_half_seconds (currentEvents s ! i))
            \<and> exact_range (t_half_seconds (currentEvents s ! i) + ?a)
            \<longrightarrow>
              t_half_seconds (currentEvents (applyTimeAdjust s) ! i) =
                max 0 (t_half_seconds (currentEvents s ! i) + ?a))
         \<and> (half (currentEvents s ! i) = 2
            \<and> exact_range ?b
            \<and> exact_range (t_half_seconds (currentEvents s ! i))
            \<and> exact_range (t_half_seconds (currentEvents s ! i) + ?b)
            \<longrightarrow>
              t_half_seconds (currentEvents (applyTimeAdjust s) ! i) =
                max 0 (t_half_seconds (currentEvents s ! i) + ?b))
         \<and> \<not> t_half_seconds (currentEvents (applyTimeAdjust s) ! i) < 0
         \<and> currentEvents (applyTimeAdjust s) ! i =
             (currentEvents s ! i)
               \<lparr>t_half_seconds := t_half_seconds (currentEvents (applyTimeAdjust s) ! i)\<rparr>"
    using eqs by (simp add: adjust_event_def Let_def)
  {
    assume d: "distinct (map event_id (currentEvents s))"
    have d': "distinct (map event_id (map (adjust_event ?a ?b) (currentEvents s)))"
      using d by (simp add: comp_def)
    show "\<forall>e \<in> set (currentEvents (applyTimeAdjust s)).
              idb_get event_id (event_id e) (db_events (applyTimeAdjust s)) = Some e"
      using eqs idb_get_foldl_put [OF d'] by simp
  }
qed

text \<open>
  First-half events at 10 and 50 seconds and a second-half event at 5 seconds, adjusted by
  +20 and -30, all in the exact range: the times become 30, 70 and 0, in memory and in the
  store. With both inputs at \<open>0\<close> nothing changes.
\<close>

theorem C4_time_adjust_witness:
  "parseInt_or_0 ''20'' \<noteq> 0
   \<and> exact_range (parseInt_or_0 ''20'') \<and> exact_range (parseInt_or_0 ''-30'')
   \<and> exact_range 10 \<and> exact_range (10 + parseInt_or_0 ''20'')
   \<and> exact_range 5 \<and> exact_range (5 + parseInt_or_0 ''-30'')
   \<and> distinct (map event_id [example_event ''ev_1'' 1 10 ''KO_PFC'',
        example_event ''ev_2'' 1 50 ''CK_OPP'', example_event ''ev_3'' 2 5 ''KO_OPP''])
   \<and> t_half_seconds (currentEvents (applyTimeAdjust ((example_review
        [example_event ''ev_1'' 1 10 ''KO_PFC'', example_event ''ev_2'' 1 50 ''CK_OPP'',
         example_event ''ev_3'' 2 5 ''KO_OPP''])\<lparr>adjust_h1 := ''20'', adjust_h2 := ''-30''\<rparr>))
        ! 0) = 30
   \<and> t_half_seconds (currentEvents (applyTimeAdjust ((example_review
        [example_event ''ev_1'' 1 10 ''KO_PFC'', example_event ''ev_2'' 1 50 ''CK_OPP'',
         example_event ''ev_3'' 2 5 ''KO_OPP''])\<lparr>adjust_h1 := ''20'', adjust_h2 := ''-30''\<rparr>))
        ! 2) = 0
   \<and> currentEvents (applyTimeAdjust ((example_review
        [example_event ''ev_1'' 1 10 ''KO_PFC'', example_event ''ev_2'' 1 50 ''CK_OPP'',
         example_event ''ev_3'' 2 5 ''KO_OPP''])\<lparr>adjust_h1 := ''20'', adjust_h2 := ''-30''\<rparr>)) =
       [example_event ''ev_1'' 1 30 ''KO_PFC'', example_event ''ev_2'' 1 70 ''CK_OPP'',
        example_event ''ev_3'' 2 0 ''KO_OPP'']
   \<and> idb_get event_id ''ev_3'' (db_events (applyTimeAdjust ((example_review
        [example_event ''ev_1'' 1 10 ''KO_PFC'', example_event ''ev_2'' 1 50 ''CK_OPP'',
         example_event ''ev_3'' 2 5 ''KO_OPP''])\<lparr>adjust_h1 := ''20'', adjust_h2 := ''-30''\<rparr>))) =
       Some (example_event ''ev_3'' 2 0 ''KO_OPP'')
   \<and> parseInt_or_0 ''0'' = 0
   \<and> currentEvents (applyTimeAdjust (example_review
        [example_event ''ev_1'' 1 10 ''KO_PFC'', example_event ''ev_2'' 1 50 ''CK_OPP'',
         example_event ''ev_3'' 2 5 ''KO_OPP''])) =
       [example_event ''ev_1'' 1 10 ''KO_PFC'', example_event ''ev_2'' 1 50 ''CK_OPP'',
        example_event ''ev_3'' 2 5 ''KO_OPP'']"
proof -
  let ?es = "[example_event ''ev_1'' 1 10 ''KO_PFC'', example_event ''ev_2'' 1 50 ''CK_OPP'',
         example_event ''ev_3'' 2 5 ''KO_OPP'']"
  let ?s = "(example_review ?es)\<lparr>adjust_h1 := ''20'', adjust_h2 := ''-30''\<rparr>"
  have f: "adjust_h1 ?s = ''20'' \<and> adjust_h2 ?s = ''-30'' \<and> currentEvents ?s = ?es
      \<and> adjust_h1 (example_review ?es) = ''0'' \<and> adjust_h2 (example_review ?es) = ''0''
      \<and> currentEvents (example_review ?es) = ?es"
    by (simp add: example_review_def fresh_session_def)
  have h: "half (?es ! 0) = 1 \<and> t_half_seconds (?es ! 0) = 10
      \<and> half (?es ! 2) = 2 \<and> t_half_seconds (?es ! 2) = 5 \<and> length ?es = 3"
    by (simp add: example_event_def)
  have r: "exact_range (parseInt_or_0 ''20'') \<and> exact_range (parseInt_or_0 ''-30'')
      \<and> exact_range 10 \<and> exact_range (10 + parseInt_or_0 ''20'')
      \<and> exact_range 5 \<and> exact_range (5 + parseInt_or_0 ''-30'')"
    using parseInt_or_0_numerals by simp
  have nz: "parseInt_or_0 (adjust_h1 ?s) \<noteq> 0 \<or> parseInt_or_0 (adjust_h2 ?s) \<noteq> 0"
    using f parseInt_or_0_numerals by simp
  have per: "\<forall>i < length (currentEvents ?s).
           (half (currentEvents ?s ! i) = 1
            \<and> exact_range (parseInt_or_0 (adjust_h1 ?s))
            \<and> exact_range (t_half_seconds (currentEvents ?s ! i))
            \<and> exact_range (t_half_seconds (currentEvents ?s ! i) + parseInt_or_0 (adjust_h1 ?s))
            \<longrightarrow>
              t_half_seconds (currentEvents (applyTimeAdjust ?s) ! i) =
                max 0 (t_half_seconds (currentEvents ?s ! i) + parseInt_or_0 (adjust_h1 ?s)))
         \<and> (half (currentEvents ?s ! i) = 2
            \<and> exact_range (parseInt_or_0 (adjust_h2 ?s))
            \<and> exact_range (t_half_seconds (currentEvents ?s ! i))
            \<and> exact_range (t_half_seconds (currentEvents ?s ! i) + parseInt_or_0 (adjust_h2 ?s))
            \<longrightarrow>
              t_half_seconds (currentEvents (applyTimeAdjust ?s) ! i) =
                max 0 (t_half_seconds (currentEvents ?s ! i) + parseInt_or_0 (adjust_h2 ?s)))"
    using C4_time_adjust [where s = ?s] nz by blast
  have t0: "t_half_seconds (currentEvents (applyTimeAdjust ?s) ! 0) = 30"
    using per [rule_format, of 0] f h r parseInt_or_0_numerals by simp
  have t2: "t_half_seconds (currentEvents (applyTimeAdjust ?s) ! 2) = 0"
    using per [rule_format, of 2] f h r parseInt_or_0_numerals by simp
  have ev: "currentEvents (applyTimeAdjust ?s) =
       [example_event ''ev_1'' 1 30 ''KO_PFC'', example_event ''ev_2'' 1 70 ''CK_OPP'',
        example_event ''ev_3'' 2 0 ''KO_OPP'']"
    using applyTimeAdjust_nonzero [of ?s] f parseInt_or_0_numerals
    by (simp add: adjust_event_def example_event_def)
  have d: "distinct (map event_id ?es)"
    by (simp add: example_event_def)
  have st: "idb_get event_id (event_id (example_event ''ev_3'' 2 0 ''KO_OPP''))
       (db_events (applyTimeAdjust ?s)) = Some (example_event ''ev_3'' 2 0 ''KO_OPP'')"
    using C4_time_adjust [where s = ?s] f parseInt_or_0_numerals d ev by simp
  have z: "currentEvents (applyTimeAdjust (example_review ?es)) = ?es"
    using C4_time_adjust [where s = "example_review ?es"] f parseInt_or_0_numerals by simp
  have id3: "event_id (example_event ''ev_3'' 2 0 ''KO_OPP'') = ''ev_3''"
    by (simp add: example_event_def)
  show ?thesis
    using r t0 t2 ev d st z id3 parseInt_or_0_numerals by simp
qed

text \<open>
  Claim C10. An offset input that \<open>parseInt\<close> cannot read counts as \<open>0\<close>: the empty input
  is one such, and the event list and store after the adjustment are those the adjustment
  gives with that input set to \<open>0\<close>. When neither input can be read the adjustment is the
  refused zero-and-zero one: the session changes in its notice only, so no event is changed
  in memory or in the store.
\<close>

theorem C10_unparseable_offset_is_zero:
  "(parseInt v = None \<longrightarrow> parseInt_or_0 v = 0)
   \<and> parseInt '''' = None
   \<and> (parseInt (adjust_h1 s) = None \<and> parseInt (adjust_h2 s) = None \<longrightarrow>
        applyTimeAdjust s = showToast ''No adjustment entered'' s
        \<and> currentEvents (applyTimeAdjust s) = currentEvents s
        \<and> db_events (applyTimeAdjust s) = db_events s)
   \<and> (parseInt (adjust_h1 s) = None \<longrightarrow>
        currentEvents (applyTimeAdjust s) =
          currentEvents (applyTimeAdjust (s\<lparr>adjust_h1 := ''0''\<rparr>))
        \<and> db_events (applyTimeAdjust s) = db_events (applyTimeAdjust (s\<lparr>adjust_h1 := ''0''\<rparr>)))
   \<and> (parseInt (adjust_h2 s) = None \<longrightarrow>
        currentEvents (applyTimeAdjust s) =
          currentEvents (applyTimeAdjust (s\<lparr>adjust_h2 := ''0''\<rparr>))
        \<and> db_events (applyTimeAdjust s) = db_events (applyTimeAdjust (s\<lparr>adjust_h2 := ''0''\<rparr>)))"
proof -
  have z: "parseInt_or_0 ''0'' = 0"
    using parseInt_or_0_numerals by simp
  have n: "parseInt v = None \<Longrightarrow> parseInt_or_0 v = 0" for v
    by (simp add: parseInt_or_0_def)
  have e: "parseInt '''' = None"
    by (simp add: parseInt_def)
  have obs: "currentEvents (applyTimeAdjust s) =
      (if parseInt_or_0 (adjust_h1 s) = 0 \<and> parseInt_or_0 (adjust_h2 s) = 0
       then currentEvents s
       else map (adjust_event (parseInt_or_0 (adjust_h1 s)) (parseInt_or_0 (adjust_h2 s)))
              (currentEvents s))
    \<and> db_events (applyTimeAdjust s) =
      (if parseInt_or_0 (adjust_h1 s) = 0 \<and> parseInt_or_0 (adjust_h2 s) = 0 then db_events s
       else foldl (\<lambda>d e. idb_put event_id e d) (db_events s)
         (map (adjust_event (parseInt_or_0 (adjust_h1 s)) (parseInt_or_0 (adjust_h2 s)))
            (currentEvents s)))" for s
    using applyTimeAdjust_nonzero [of s] applyTimeAdjust_zero [of s]
    by (auto simp: showToast_def)
  have both: "parseInt (adjust_h1 s) = None \<and> parseInt (adjust_h2 s) = None \<longrightarrow>
        applyTimeAdjust s = showToast ''No adjustment entered'' s
        \<and> currentEvents (applyTimeAdjust s) = currentEvents s
        \<and> db_events (applyTimeAdjust s) = db_events s"
    using applyTimeAdjust_zero [of s] by (auto simp: n showToast_def)
  have h1: "parseInt (adjust_h1 s) = None \<longrightarrow>
        currentEvents (applyTimeAdjust s) =
          currentEvents (applyTimeAdjust (s\<lparr>adjust_h1 := ''0''\<rparr>))
        \<and> db_events (applyTimeAdjust s) = db_events (applyTimeAdjust (s\<lparr>adjust_h1 := ''0''\<rparr>))"
    using obs [of s] obs [of "s\<lparr>adjust_h1 := ''0''\<rparr>"] by (auto simp: n z)
  have h2: "parseInt (adjust_h2 s) = None \<longrightarrow>
        currentEvents (applyTimeAdjust s) =
          currentEvents (applyTimeAdjust (s\<lparr>adjust_h2 := ''0''\<rparr>))
        \<and> db_events (applyTimeAdjust s) = db_events (applyTimeAdjust (s\<lparr>adjust_h2 := ''0''\<rparr>))"
    using obs [of s] obs [of "s\<lparr>adjust_h2 := ''0''\<rparr>"] by (auto simp: n z)
  show ?thesis using n e both h1 h2 by blast
qed

text \<open>
  The inputs \<^verbatim>\<open>abc\<close> and the empty string: neither can be read and the three events
  stay as they are. The inputs \<^verbatim>\<open>abc\<close> and \<^verbatim>\<open>5\<close>: the first-half events keep their
  times and the second-half event moves from 5 to 10.
\<close>

theorem C10_unparseable_offset_is_zero_witness:
  "parseInt ''abc'' = None \<and> parseInt '''' = None \<and> parseInt_or_0 ''abc'' = 0
   \<and> currentEvents (applyTimeAdjust ((example_review
        [example_event ''ev_1'' 1 10 ''KO_PFC'', example_event ''ev_2'' 1 50 ''CK_OPP'',
         example_event ''ev_3'' 2 5 ''KO_OPP''])\<lparr>adjust_h1 := ''abc'', adjust_h2 := []\<rparr>)) =
       [example_event ''ev_1'' 1 10 ''KO_PFC'', example_event ''ev_2'' 1 50 ''CK_OPP'',
        example_event ''ev_3'' 2 5 ''KO_OPP'']
   \<and> db_events (applyTimeAdjust ((example_review
        [example_event ''ev_1'' 1 10 ''KO_PFC'', example_event ''ev_2'' 1 50 ''CK_OPP'',
         example_event ''ev_3'' 2 5 ''KO_OPP''])\<lparr>adjust_h1 := ''abc'', adjust_h2 := []\<rparr>)) =
       [example_event ''ev_1'' 1 10 ''KO_PFC'', example_event ''ev_2'' 1 50 ''CK_OPP'',
        example_event ''ev_3'' 2 5 ''KO_OPP'']
   \<and> currentEvents (applyTimeAdjust ((example_review
        [example_event ''ev_1'' 1 10 ''KO_PFC'', example_event ''ev_2'' 1 50 ''CK_OPP'',
         example_event ''ev_3'' 2 5 ''KO_OPP''])\<lparr>adjust_h1 := ''abc'', adjust_h2 := ''5''\<rparr>)) =
       [example_event ''ev_1'' 1 10 ''KO_PFC'', example_event ''ev_2'' 1 50 ''CK_OPP'',
        example_event ''ev_3'' 2 10 ''KO_OPP'']"
proof -
  let ?es = "[example_event ''ev_1'' 1 10 ''KO_PFC'', example_event ''ev_2'' 1 50 ''CK_OPP'',
         example_event ''ev_3'' 2 5 ''KO_OPP'']"
  let ?s = "(example_review ?es)\<lparr>adjust_h1 := ''abc'', adjust_h2 := []\<rparr>"
  let ?s5 = "(example_review ?es)\<lparr>adjust_h1 := ''abc'', adjust_h2 := ''5''\<rparr>"
  have p: "parseInt ''abc'' = None \<and> parseInt '''' = None"
    by (simp add: parseInt_def isStrWhiteSpaceChar_def isDigit_def)
  have n: "parseInt_or_0 ''abc'' = 0"
    using p C10_unparseable_offset_is_zero [where s = ?s and v = "''abc''"] by blast
  have a: "currentEvents (applyTimeAdjust ?s) = ?es \<and> db_events (applyTimeAdjust ?s) = ?es"
    using p C10_unparseable_offset_is_zero [where s = ?s and v = "''abc''"]
    by (simp add: example_review_def fresh_session_def showToast_def)
  have b: "currentEvents (applyTimeAdjust ?s5) =
       [example_event ''ev_1'' 1 10 ''KO_PFC'', example_event ''ev_2'' 1 50 ''CK_OPP'',
        example_event ''ev_3'' 2 10 ''KO_OPP'']"
    using p C10_unparseable_offset_is_zero [where s = ?s5 and v = "''abc''"]
      applyTimeAdjust_nonzero [of "?s5\<lparr>adjust_h1 := ''0''\<rparr>"] parseInt_or_0_numerals
    by (simp add: example_review_def fresh_session_def adjust_event_def example_event_def)
  show ?thesis
    using p n a b by simp
qed

subsection \<open>Filtering\<close>

lemma startsWith_prefix: "startsWith str p = prefix p str"
  by (auto simp: startsWith_def prefix_def) (metis append_eq_conv_conj)

lemma endsWith_suffix: "endsWith str p = suffix p str"
  by (auto simp: endsWith_def suffix_def) (metis append_take_drop_id)

lemma side_suffix_button_codes:
  "c \<in> set button_codes \<Longrightarrow> t = ''PFC'' \<or> t = ''OPP'' \<Longrightarrow> suffix (''_'' @ t) c = suffix t c"
  by (auto simp: button_codes_def EVENT_TYPES_def suffix_to_prefix)

text \<open>
  Claim C5. The filtered view is the sublist of \<open>currentEvents\<close>, in the original order,
  of the events whose half is the number the half select holds (any half under
  \<^verbatim>\<open>all\<close>), whose code ends with \<^verbatim>\<open>_\<close> and the selected side (any side under
  \<^verbatim>\<open>all\<close>) and whose code starts with the selected family (any family under \<^verbatim>\<open>all\<close>).
  Rendering the view leaves \<open>currentEvents\<close> as it is, and with all three selects at
  \<^verbatim>\<open>all\<close> the view is the whole list. On a list whose codes are all codes of the
  button grid, ending with \<^verbatim>\<open>_PFC\<close> (or \<^verbatim>\<open>_OPP\<close>) is the same as ending with
  \<^verbatim>\<open>PFC\<close> (or \<^verbatim>\<open>OPP\<close>).
\<close>

theorem C5_filtered_view:
  "getFilteredEvents s =
     filter (\<lambda>e. (filter_half s = ''all'' \<or> parseInt (filter_half s) = Some (half e))
               \<and> (filter_team s = ''all'' \<or> suffix (''_'' @ filter_team s) (event_code e))
               \<and> (filter_type s = ''all'' \<or> prefix (filter_type s) (event_code e)))
            (currentEvents s)
   \<and> subseq (getFilteredEvents s) (currentEvents s)
   \<and> currentEvents (renderEventsList s) = currentEvents s
   \<and> (filter_half s = ''all'' \<and> filter_team s = ''all'' \<and> filter_type s = ''all'' \<longrightarrow>
        getFilteredEvents s = currentEvents s)
   \<and> ((filter_team s = ''PFC'' \<or> filter_team s = ''OPP'')
        \<and> (\<forall>e \<in> set (currentEvents s). event_code e \<in> set button_codes) \<longrightarrow>
        getFilteredEvents s =
          filter (\<lambda>e. (filter_half s = ''all'' \<or> parseInt (filter_half s) = Some (half e))
                    \<and> suffix (filter_team s) (event_code e)
                    \<and> (filter_type s = ''all'' \<or> prefix (filter_type s) (event_code e)))
                 (currentEvents s))"
proof -
  have p: "filter_pred h t y e =
      ((h = ''all'' \<or> parseInt h = Some (half e))
       \<and> (t = ''all'' \<or> suffix (''_'' @ t) (event_code e))
       \<and> (y = ''all'' \<or> prefix y (event_code e)))" for h t y e
    unfolding filter_pred_def startsWith_prefix endsWith_suffix by auto
  have a: "getFilteredEvents s =
     filter (\<lambda>e. (filter_half s = ''all'' \<or> parseInt (filter_half s) = Some (half e))
               \<and> (filter_team s = ''all'' \<or> suffix (''_'' @ filter_team s) (event_code e))
               \<and> (filter_type s = ''all'' \<or> prefix (filter_type s) (event_code e)))
            (currentEvents s)"
    unfolding getFilteredEvents_def p ..
  have b: "subseq (getFilteredEvents s) (currentEvents s)"
    by (simp add: getFilteredEvents_def)
  have c: "currentEvents (renderEventsList s) = currentEvents s"
    by (simp add: renderEventsList_def)
  have d: "filter_half s = ''all'' \<and> filter_team s = ''all'' \<and> filter_type s = ''all'' \<longrightarrow>
        getFilteredEvents s = currentEvents s"
    by (simp add: getFilteredEvents_def filter_pred_def)
  have e: "getFilteredEvents s =
          filter (\<lambda>e. (filter_half s = ''all'' \<or> parseInt (filter_half s) = Some (half e))
                    \<and> suffix (filter_team s) (event_code e)
                    \<and> (filter_type s = ''all'' \<or> prefix (filter_type s) (event_code e)))
                 (currentEvents s)"
    if t: "filter_team s = ''PFC'' \<or> filter_team s = ''OPP''"
      and v: "\<forall>e \<in> set (currentEvents s). event_code e \<in> set button_codes"
  proof -
    have na: "filter_team s \<noteq> ''all''" using t by auto
    show ?thesis
      unfolding a
      by (rule filter_cong [OF refl]) (use t v na side_suffix_button_codes in auto)
  qed
  show ?thesis using a b c d e by blast
qed

text \<open>
  A PFC goal and an opponent goal in the first half and a PFC goal in the second: the filter
  (half 1, PFC, GOAL) shows the first only, and the filter (all, all, all) shows the three.
\<close>

theorem C5_filtered_view_witness:
  "getFilteredEvents ((example_review
      [example_event ''ev_1'' 1 125 ''GOAL_PFC'', example_event ''ev_2'' 1 300 ''GOAL_OPP'',
       example_event ''ev_3'' 2 10 ''GOAL_PFC''])
        \<lparr>filter_half := ''1'', filter_team := ''PFC'', filter_type := ''GOAL''\<rparr>) =
     [example_event ''ev_1'' 1 125 ''GOAL_PFC'']
   \<and> list_all (\<lambda>e. event_code e \<in> set button_codes)
      [example_event ''ev_1'' 1 125 ''GOAL_PFC'', example_event ''ev_2'' 1 300 ''GOAL_OPP'',
       example_event ''ev_3'' 2 10 ''GOAL_PFC'']
   \<and> filter_half (example_review
      [example_event ''ev_1'' 1 125 ''GOAL_PFC'', example_event ''ev_2'' 1 300 ''GOAL_OPP'',
       example_event ''ev_3'' 2 10 ''GOAL_PFC'']) = ''all''
   \<and> filter_team (example_review
      [example_event ''ev_1'' 1 125 ''GOAL_PFC'', example_event ''ev_2'' 1 300 ''GOAL_OPP'',
       example_event ''ev_3'' 2 10 ''GOAL_PFC'']) = ''all''
   \<and> filter_type (example_review
      [example_event ''ev_1'' 1 125 ''GOAL_PFC'', example_event ''ev_2'' 1 300 ''GOAL_OPP'',
       example_event ''ev_3'' 2 10 ''GOAL_PFC'']) = ''all''
   \<and> getFilteredEvents (example_review
      [example_event ''ev_1'' 1 125 ''GOAL_PFC'', example_event ''ev_2'' 1 300 ''GOAL_OPP'',
       example_event ''ev_3'' 2 10 ''GOAL_PFC'']) =
     [example_event ''ev_1'' 1 125 ''GOAL_PFC'', example_event ''ev_2'' 1 300 ''GOAL_OPP'',
      example_event ''ev_3'' 2 10 ''GOAL_PFC'']"
proof -
  let ?es = "[example_event ''ev_1'' 1 125 ''GOAL_PFC'', example_event ''ev_2'' 1 300 ''GOAL_OPP'',
       example_event ''ev_3'' 2 10 ''GOAL_PFC'']"
  let ?s = "(example_review ?es)
        \<lparr>filter_half := ''1'', filter_team := ''PFC'', filter_type := ''GOAL''\<rparr>"
  have one: "parseInt ''1'' = Some 1"
    by (simp add: parseInt_def isStrWhiteSpaceChar_def isDigit_def digitValue_def)
  have sel: "filter_half ?s = ''1'' \<and> filter_team ?s = ''PFC'' \<and> filter_type ?s = ''GOAL''
      \<and> currentEvents ?s = ?es"
    by (simp add: example_review_def fresh_session_def)
  have all: "filter_half (example_review ?es) = ''all'' \<and> filter_team (example_review ?es) = ''all''
      \<and> filter_type (example_review ?es) = ''all'' \<and> currentEvents (example_review ?es) = ?es"
    by (simp add: example_review_def fresh_session_def)
  have codes: "suffix ''_PFC'' ''GOAL_PFC'' \<and> \<not> suffix ''_PFC'' ''GOAL_OPP''
      \<and> prefix ''GOAL'' ''GOAL_PFC''"
    by (simp add: suffix_to_prefix)
  have a: "getFilteredEvents ?s = [example_event ''ev_1'' 1 125 ''GOAL_PFC'']"
    using C5_filtered_view [where s = ?s] sel one codes by (simp add: example_event_def)
  have b: "getFilteredEvents (example_review ?es) = ?es"
    using C5_filtered_view [where s = "example_review ?es"] all by simp
  have v: "list_all (\<lambda>e. event_code e \<in> set button_codes) ?es"
    by (simp add: button_codes_def EVENT_TYPES_def example_event_def)
  show ?thesis using a b all v by simp
qed

subsection \<open>Saved games\<close>

lemma events_comparefn_half_then_time:
  "(SortCompare events_comparefn a b \<le> 0) = half_then_time a b"
  by (auto simp: SortCompare_def events_comparefn_def)

lemma sorted_events: "sorted_wrt half_then_time (array_sort events_comparefn es)"
  by (rule sorted_wrt_array_sort) (auto simp: events_comparefn_half_then_time)

lemma currentEvents_loadSavedGame:
  "find (\<lambda>g. game_id g = gameId) (db_games s) = Some g \<Longrightarrow>
   currentEvents (loadSavedGame gameId s) =
     array_sort events_comparefn (filter (\<lambda>e. ev_game_id e = gameId) (db_events s))"
  by (simp add: loadSavedGame_def Let_def dbGetAll_games_def dbGetEventsByGame_def
        showScreen_def openReviewScreen_def renderEventsList_def)

text \<open>
  Claim C7. When the game with the given id is in the game store, loading it leaves in
  \<open>currentEvents\<close> exactly the stored events of that game (as a multiset, so whatever
  their order in the store), ordered by half ascending and, within a half, by
  \<open>t_half_seconds\<close> ascending.
\<close>

theorem C7_loaded_events_ordered:
  "find (\<lambda>g. game_id g = gameId) (db_games s) = Some g \<Longrightarrow>
   sorted_wrt half_then_time (currentEvents (loadSavedGame gameId s))
   \<and> mset (currentEvents (loadSavedGame gameId s)) =
       mset (filter (\<lambda>e. ev_game_id e = gameId) (db_events s))"
  using sorted_events [of "filter (\<lambda>e. ev_game_id e = gameId) (db_events s)"]
  by (simp add: currentEvents_loadSavedGame mset_array_sort)

text \<open>
  The store returns the events (half 2, 5 s), (half 1, 30 s), (half 1, 5 s); the review
  list is (half 1, 5 s), (half 1, 30 s), (half 2, 5 s).
\<close>

theorem C7_loaded_events_ordered_witness:
  "find (\<lambda>g. game_id g = ''game_1700000000000'')
     (db_games (example_review [example_event ''ev_1'' 2 5 ''KO_OPP'',
        example_event ''ev_2'' 1 30 ''CK_PFC'', example_event ''ev_3'' 1 5 ''KO_PFC''])) =
     Some example_game
   \<and> currentEvents (loadSavedGame ''game_1700000000000''
       (example_review [example_event ''ev_1'' 2 5 ''KO_OPP'',
          example_event ''ev_2'' 1 30 ''CK_PFC'', example_event ''ev_3'' 1 5 ''KO_PFC''])) =
     [example_event ''ev_3'' 1 5 ''KO_PFC'', example_event ''ev_2'' 1 30 ''CK_PFC'',
      example_event ''ev_1'' 2 5 ''KO_OPP'']
   \<and> sorted_wrt half_then_time (currentEvents (loadSavedGame ''game_1700000000000''
       (example_review [example_event ''ev_1'' 2 5 ''KO_OPP'',
          example_event ''ev_2'' 1 30 ''CK_PFC'', example_event ''ev_3'' 1 5 ''KO_PFC''])))"
proof -
  let ?s = "example_review [example_event ''ev_1'' 2 5 ''KO_OPP'',
        example_event ''ev_2'' 1 30 ''CK_PFC'', example_event ''ev_3'' 1 5 ''KO_PFC'']"
  have f: "find (\<lambda>g. game_id g = ''game_1700000000000'') (db_games ?s) = Some example_game"
    by (simp add: example_review_def example_game_def fresh_session_def)
  have c: "currentEvents (loadSavedGame ''game_1700000000000'' ?s) =
     [example_event ''ev_3'' 1 5 ''KO_PFC'', example_event ''ev_2'' 1 30 ''CK_PFC'',
      example_event ''ev_1'' 2 5 ''KO_OPP'']"
    unfolding currentEvents_loadSavedGame [OF f]
    by (simp add: example_review_def fresh_session_def example_event_def array_sort_def
          SortCompare_def events_comparefn_def)
  show ?thesis
    using f c C7_loaded_events_ordered [OF f] by blast
qed

lemma games_comparefn_valid:
  "Date_parse (date a) = Some ta \<Longrightarrow> Date_parse (date b) = Some tb \<Longrightarrow>
   (SortCompare (games_comparefn Date_parse) a b \<le> 0) = (tb \<le> ta)"
  by (simp add: SortCompare_def games_comparefn_def)

lemma games_list_viewSavedGames:
  "map fst (games_list (viewSavedGames Date_parse s)) =
     array_sort (games_comparefn Date_parse) (db_games s)"
  by (simp add: viewSavedGames_def Let_def showScreen_def dbGetAll_games_def)

text \<open>
  Claim C9. The saved-games listing shows every stored game once (the games of the listing
  are the stored games, as a multiset) and newest first: when the date of every stored game
  is a valid date, with time value \<open>tv\<close>, each game of the listing has a time value no
  smaller than the games after it.
\<close>

theorem C9_saved_games_newest_first:
  assumes valid: "\<forall>g \<in> set (db_games s). Date_parse (date g) = Some (tv (date g))"
  shows "mset (map fst (games_list (viewSavedGames Date_parse s))) = mset (db_games s)
     \<and> sorted_wrt (\<lambda>a b. tv (date b) \<le> tv (date a))
         (map fst (games_list (viewSavedGames Date_parse s)))"
proof -
  have "sorted_wrt (\<lambda>a b. tv (date b) \<le> tv (date a))
          (array_sort (games_comparefn Date_parse) (db_games s))"
  proof (rule sorted_wrt_array_sort)
    fix x y assume "x \<in> set (db_games s)" "y \<in> set (db_games s)"
    then show "(SortCompare (games_comparefn Date_parse) x y \<le> 0) = (tv (date y) \<le> tv (date x))"
      using valid by (simp add: games_comparefn_valid)
  qed auto
  then show ?thesis by (simp add: games_list_viewSavedGames mset_array_sort)
qed

text \<open>
  The three example games come back from the store oldest first; the listing shows the game
  of March 2024, then December 2023, then November 2023, with the event count of each.
\<close>

theorem C9_saved_games_newest_first_witness:
  "example_Date_parse (date example_game) = Some (example_time_value (date example_game))
   \<and> example_Date_parse (date example_game_december) =
       Some (example_time_value (date example_game_december))
   \<and> example_Date_parse (date example_game_march) =
       Some (example_time_value (date example_game_march))
   \<and> games_list (viewSavedGames example_Date_parse example_saved) =
       [(example_game_march, 0), (example_game_december, 0), (example_game, 1)]
   \<and> sorted_wrt (\<lambda>a b. example_time_value (date b) \<le> example_time_value (date a))
       (map fst (games_list (viewSavedGames example_Date_parse example_saved)))
   \<and> mset (map fst (games_list (viewSavedGames example_Date_parse example_saved))) =
       mset (db_games example_saved)"
proof -
  have v: "example_Date_parse (date example_game) = Some (example_time_value (date example_game))
   \<and> example_Date_parse (date example_game_december) =
       Some (example_time_value (date example_game_december))
   \<and> example_Date_parse (date example_game_march) =
       Some (example_time_value (date example_game_march))"
    by (simp add: example_Date_parse_def example_time_value_def example_game_def
          example_game_december_def example_game_march_def)
  have d: "db_games example_saved = [example_game, example_game_december, example_game_march]"
    by (simp add: example_saved_def)
  have h: "\<forall>g \<in> set (db_games example_saved).
      example_Date_parse (date g) = Some (example_time_value (date g))"
    using v d by simp
  have l: "games_list (viewSavedGames example_Date_parse example_saved) =
       [(example_game_march, 0), (example_game_december, 0), (example_game, 1)]"
    by (simp add: viewSavedGames_def Let_def showScreen_def dbGetAll_games_def
          dbGetEventsByGame_def example_saved_def fresh_session_def array_sort_def
          SortCompare_def games_comparefn_def example_Date_parse_def example_game_def
          example_game_december_def example_game_march_def example_event_def)
  show ?thesis
    using v l C9_saved_games_newest_first [OF h] by blast
qed

subsection \<open>Export file name\<close>

text \<open>
  Claim C8, as the script has it. For a current game whose date is valid, the export file
  name is \<^verbatim>\<open>GameMoments_\<close>, the first ten characters of the ISO string of the game's date,
  \<^verbatim>\<open>_\<close>, the sanitized opponent name, a dot and the extension. The sanitized name is as
  long as the opponent name, up to 20 characters, and holds at each position the opponent
  name's character when that is an ASCII letter or digit and \<^verbatim>\<open>_\<close> otherwise: the
  other characters are replaced, not removed. When the stored date is the ISO string of its
  own time value, the date part is the first ten characters of the stored date.
\<close>

theorem C8_filename_sanitized_by_replacement:
  assumes "currentGame s = Some g" and "Date_parse (date g) = Some t"
  shows "buildFilename Date_parse toISOString ext s =
       Inr (''GameMoments_'' @ take 10 (toISOString t) @ ''_''
            @ sanitize_opponent (opponent g) @ ''.'' @ ext)
     \<and> length (sanitize_opponent (opponent g)) = min 20 (length (opponent g))
     \<and> (\<forall>i < length (sanitize_opponent (opponent g)).
          sanitize_opponent (opponent g) ! i =
            (if isAlnum (opponent g ! i) then opponent g ! i else CHR ''_''))
     \<and> (toISOString t = date g \<longrightarrow>
          buildFilename Date_parse toISOString ext s =
            Inr (''GameMoments_'' @ take 10 (date g) @ ''_''
                 @ sanitize_opponent (opponent g) @ ''.'' @ ext))"
  using assms by (simp add: buildFilename_def sanitize_opponent_def)

text \<open>
  The game of March against \<^verbatim>\<open>FC Riverside United 2024!\<close>: the two spaces of the first
  twenty characters become underscores.
\<close>

theorem C8_filename_sanitized_by_replacement_witness:
  "currentGame example_review_march = Some example_game_march
   \<and> example_Date_parse (date example_game_march) = Some 1709287200000
   \<and> example_toISOString 1709287200000 = date example_game_march
   \<and> buildFilename example_Date_parse example_toISOString ''csv'' example_review_march =
       Inr ''GameMoments_2024-03-01_FC_Riverside_United_.csv''"
proof -
  have g: "currentGame example_review_march = Some example_game_march"
    by (simp add: example_review_march_def)
  have p: "example_Date_parse (date example_game_march) = Some 1709287200000"
    by (simp add: example_Date_parse_def example_game_march_def)
  have i: "example_toISOString 1709287200000 = date example_game_march"
    by (simp add: example_toISOString_def example_game_march_def)
  have o: "sanitize_opponent (opponent example_game_march) = ''FC_Riverside_United_''"
    by (simp add: sanitize_opponent_def isAlnum_def example_game_march_def)
  have d: "take 10 (date example_game_march) = ''2024-03-01''"
    by (simp add: example_game_march_def)
  show ?thesis
    using g p i o d
      C8_filename_sanitized_by_replacement [where s = example_review_march
        and g = example_game_march and Date_parse = example_Date_parse and t = 1709287200000
        and toISOString = example_toISOString and ext = "''csv''"]
    by simp
qed

text \<open>
  The claim as the specification words it has the other characters stripped. For the same
  game that would give the name part \<^verbatim>\<open>FCRiversideUnited202\<close>; the script's file name
  differs.
\<close>

theorem C8_stripped_counterexample:
  "take 20 (filter isAlnum (opponent example_game_march)) = ''FCRiversideUnited202''
   \<and> buildFilename example_Date_parse example_toISOString ''csv'' example_review_march \<noteq>
       Inr (''GameMoments_'' @ ''2024-03-01'' @ ''_''
            @ take 20 (filter isAlnum (opponent example_game_march)) @ ''.'' @ ''csv'')"
  by (simp add: buildFilename_def sanitize_opponent_def isAlnum_def example_review_march_def
        example_game_march_def example_Date_parse_def example_toISOString_def)

subsection \<open>End game and resume\<close>

text \<open>
  After \<open>endGame\<close> the session is not live and the interval is cleared, so the resume
  handler's test fails and it restarts nothing.
\<close>

lemma resume_after_endGame:
  "\<not> gameActive (btn_resume_logging_click (endGame s))
   \<and> \<not> clockInterval (btn_resume_logging_click (endGame s))
   \<and> clockSeconds (btn_resume_logging_click (endGame s)) = clockSeconds s
   \<and> currentGame (btn_resume_logging_click (endGame s)) = currentGame s
   \<and> db_games (btn_resume_logging_click (endGame s)) = db_games s"
  by (simp add: btn_resume_logging_click_def endGame_def Let_def showScreen_def
        updateScoreboard_def openReviewScreen_def renderEventsList_def stopClock_def
        split: option.splits)

text \<open>
  Claim C6, at the example game in its second half, live and with the clock running at 40
  seconds. After end game and resume the current game and the game store are as before and
  the clock still reads 40, but the session is not live and the clock is not running: a tap
  on an event button logs nothing and a second passing does not move the clock.
\<close>

theorem C6_resume_after_endGame_not_live:
  "gameActive example_second_half \<and> clockInterval example_second_half
   \<and> clockSeconds example_second_half = 40
   \<and> \<not> btn_resume_logging_hidden (endGame example_second_half)
   \<and> currentGame (btn_resume_logging_click (endGame example_second_half)) =
       currentGame example_second_half
   \<and> db_games (btn_resume_logging_click (endGame example_second_half)) =
       db_games example_second_half
   \<and> clockSeconds (btn_resume_logging_click (endGame example_second_half)) = 40
   \<and> \<not> gameActive (btn_resume_logging_click (endGame example_second_half))
   \<and> \<not> clockInterval (btn_resume_logging_click (endGame example_second_half))
   \<and> logEvent ''GOAL_PFC'' ''ev_1700000300000_a1b2c'' ''2023-11-14T22:18:20.000Z''
        (btn_resume_logging_click (endGame example_second_half)) =
       btn_resume_logging_click (endGame example_second_half)
   \<and> tick (btn_resume_logging_click (endGame example_second_half)) =
       btn_resume_logging_click (endGame example_second_half)"
proof -
  let ?r = "btn_resume_logging_click (endGame example_second_half)"
  have r: "\<not> gameActive ?r \<and> \<not> clockInterval ?r
      \<and> clockSeconds ?r = clockSeconds example_second_half
      \<and> currentGame ?r = currentGame example_second_half
      \<and> db_games ?r = db_games example_second_half"
    by (rule resume_after_endGame)
  have b: "\<not> btn_resume_logging_hidden (endGame example_second_half)"
    using example_second_half_fields
    by (simp add: endGame_def Let_def showScreen_def openReviewScreen_def renderEventsList_def
          stopClock_def split: option.splits)
  have l: "logEvent ''GOAL_PFC'' ''ev_1700000300000_a1b2c'' ''2023-11-14T22:18:20.000Z'' ?r = ?r"
    using r by (simp add: logEvent_def split: option.splits)
  have t: "tick ?r = ?r"
    using r by (simp add: tick_def)
  show ?thesis
    using example_second_half_fields r b l t by simp
qed

end
